theory Spec2Isabelle
  imports Complex_Main "HOL-Library.Sublist"
begin

section \<open>Shared data: JavaScript values and errors\<close>

text \<open>
  JavaScript strings are modelled as \<open>string\<close>; a character stands for one code unit in
  the Latin-1 range. Numbers that the code only copies are rationals. A thrown value is
  an element of \<open>js_error\<close>; a function that can throw returns \<open>js_error + 'a\<close>.
\<close>

type_synonym number = rat

datatype js_error =
    TypeError string
  | SyntaxError string
  | NetworkError string
  | ZodError string
  | Error string

section \<open>Caption search action\<close>

subsection \<open>Configuration lookup (serverRegistry.ts)\<close>

text \<open>
  \<open>getCloudflareRAGURL\<close> is
  \<^verbatim>\<open>process.env.CLOUDFLARE_RAG_URL || configManager.getConfig('search.cloudflareRAGURL', '')\<close>.
  The environment variable may be unset (\<open>None\<close>); an unset or empty variable is falsy.
  The configuration lookup has the default \<open>''\<close>, so it is a plain string here.
\<close>

record environment =
  CLOUDFLARE_RAG_URL :: "string option"
  config_cloudflareRAGURL :: string

definition getCloudflareRAGURL :: "environment \<Rightarrow> string" where
  "getCloudflareRAGURL env =
     (case CLOUDFLARE_RAG_URL env of
        Some u \<Rightarrow> if u \<noteq> [] then u else config_cloudflareRAGURL env
      | None \<Rightarrow> config_cloudflareRAGURL env)"

subsection \<open>Data of the search action\<close>

text \<open>
  A hit of the remote response, as decoded from JSON. The interface declares \<open>id\<close>,
  \<open>content\<close>, \<open>folderName\<close>, \<open>imageCount\<close> and \<open>score\<close> as required, but at run
  time nothing checks the decoded value: any field may be absent (\<open>None\<close>, the value
  \<^verbatim>\<open>undefined\<close>). A field that is present has its declared type.
\<close>

record CloudflareSearchResult =
  hit_id :: "string option"
  hit_content :: "string option"
  folderName :: "string option"
  hit_platform :: "string option"
  hit_holiday :: "string option"
  hit_imageCount :: "number option"
  hit_score :: "number option"

text \<open>
  The response body: \<open>results\<close> is \<open>None\<close> when the field is not an array. The code
  never reads \<open>query\<close> and \<open>total\<close>.
\<close>

record CloudflareSearchResponse =
  resp_query :: string
  results :: "CloudflareSearchResult list option"
  total :: number

record ChunkMetadata =
  title :: string
  url :: string
  source :: string
  platform :: "string option"
  holiday :: "string option"
  imageCount :: "number option"
  score :: "number option"

record Chunk =
  content :: "string option"
  metadata :: ChunkMetadata

record ActionOutput =
  out_type :: string
  out_results :: "Chunk list"

datatype SubStep =
    Searching string "string list"
  | SearchResults string "Chunk list"
  | OtherSubStep string string

text \<open>A session block: a research block carries its list of sub-steps.\<close>

datatype Block =
    Research (subSteps: "SubStep list")
  | OtherBlock string

record PatchOp =
  op :: string
  path :: string
  patch_value :: "SubStep list"

record SearchBody =
  body_query :: string
  limit :: nat
  threshold :: number

record Request =
  req_url :: string
  req_method :: string
  req_headers :: "(string \<times> string) list"
  req_body :: SearchBody

text \<open>
  What \<^verbatim>\<open>fetch\<close> and \<^verbatim>\<open>res.json()\<close> can do: the fetch rejects, or it resolves to
  a response with a status whose body either fails to decode or decodes.
\<close>

datatype ResponseBody = BodyNotJSON string | BodyJSON CloudflareSearchResponse

datatype FetchOutcome =
    FetchRejects string
  | FetchResponse (ok: bool) (status: nat) (body: ResponseBody)

text \<open>Calls that leave the action, in the order they are made.\<close>

datatype Event =
    ConsoleWarn string
  | ConsoleError string
  | UpdateBlock string "PatchOp list"
  | Fetch Request

text \<open>
  The world the action runs in: the session's blocks by id, the number of identifiers
  drawn from \<^verbatim>\<open>crypto.randomUUID\<close>, and the trace of outside calls.
\<close>

record World =
  blocks :: "string \<rightharpoonup> Block"
  uuidsDrawn :: nat
  events :: "Event list"

definition emit :: "Event \<Rightarrow> World \<Rightarrow> World" where
  "emit e w = w\<lparr>events := events w @ [e]\<rparr>"

definition randomUUID :: "(nat \<Rightarrow> string) \<Rightarrow> World \<Rightarrow> string \<times> World" where
  "randomUUID gen w = (gen (uuidsDrawn w), w\<lparr>uuidsDrawn := Suc (uuidsDrawn w)\<rparr>)"

text \<open>
  Modelled from the spec: the session collaborator is not among the sources. Its
  \<open>getBlock(id)\<close> returns the mutable block of that id, or undefined.
\<close>

definition getBlock :: "World \<Rightarrow> string \<Rightarrow> Block option" where
  "getBlock w bid = blocks w bid"

text \<open>
  Modelled from the spec: the session collaborator's \<open>updateBlock(id, patchOps)\<close> is not
  among the sources. It accepts JSON-patch-style operations: a \<open>replace\<close> on
  \<open>/data/subSteps\<close> sets the sub-step list of a research block, and the call is recorded.
\<close>

fun applyPatch :: "Block \<Rightarrow> PatchOp list \<Rightarrow> Block" where
  "applyPatch b [] = b"
| "applyPatch b (p # ps) =
     applyPatch
       (case b of
          Research steps \<Rightarrow>
            if op p = ''replace'' \<and> path p = ''/data/subSteps''
            then Research (patch_value p) else b
        | OtherBlock t \<Rightarrow> b) ps"

definition updateBlock :: "string \<Rightarrow> PatchOp list \<Rightarrow> World \<Rightarrow> World" where
  "updateBlock bid patch w =
     emit (UpdateBlock bid patch)
       (case blocks w bid of
          None \<Rightarrow> w
        | Some b \<Rightarrow> w\<lparr>blocks := (blocks w)(bid \<mapsto> applyPatch b patch)\<rparr>)"

text \<open>
  \<^verbatim>\<open>researchBlock.data.subSteps.push(step)\<close> followed by the \<open>updateBlock\<close> call with
  the replace patch. The block object is the one the session holds, so the push is a
  write to the store.
\<close>

definition pushSubStep :: "string \<Rightarrow> SubStep \<Rightarrow> World \<Rightarrow> World" where
  "pushSubStep bid step w =
     (case blocks w bid of
        Some (Research steps) \<Rightarrow>
          updateBlock bid
            [\<lparr>op = ''replace'', path = ''/data/subSteps'', patch_value = steps @ [step]\<rparr>]
            (w\<lparr>blocks := (blocks w)(bid \<mapsto> Research (steps @ [step]))\<rparr>)
      | _ \<Rightarrow> w)"

definition isResearch :: "Block option \<Rightarrow> bool" where
  "isResearch b = (case b of Some (Research steps) \<Rightarrow> True | _ \<Rightarrow> False)"

subsection \<open>Mapping a hit to a chunk\<close>

text \<open>\<^verbatim>\<open>s.replace(/_/g, ' ')\<close>: every underscore becomes a space.\<close>

definition replaceUnderscores :: "string \<Rightarrow> string" where
  "replaceUnderscores s = map (\<lambda>c. if c = CHR ''_'' then CHR '' '' else c) s"

text \<open>
  \<^verbatim>\<open>`${x}`\<close>: the text of a value inside a template literal; an absent value gives
  the text \<open>undefined\<close>.
\<close>

definition templateText :: "string option \<Rightarrow> string" where
  "templateText x = (case x of Some t \<Rightarrow> t | None \<Rightarrow> ''undefined'')"

text \<open>
  The mapping of one hit (lines 95 to 106). Calling \<^verbatim>\<open>.replace\<close> on an absent
  \<open>folderName\<close> throws a TypeError; every other field is copied as it is, absent or not.
\<close>

definition toChunk :: "CloudflareSearchResult \<Rightarrow> js_error + Chunk" where
  "toChunk r =
     (case folderName r of
        None \<Rightarrow>
          Inl (TypeError (''Cannot read properties of undefined (reading '' @ [CHR 0x27] @
                          ''replace'' @ [CHR 0x27] @ '')''))
      | Some f \<Rightarrow>
          Inr \<lparr>content = hit_content r,
               metadata = \<lparr>title = ''CraftyPanda: '' @ replaceUnderscores f,
                           url = ''craftypanda://caption/'' @ templateText (hit_id r),
                           source = ''CraftyPanda Historical'',
                           platform = hit_platform r,
                           holiday = hit_holiday r,
                           imageCount = hit_imageCount r,
                           score = hit_score r\<rparr>\<rparr>)"

text \<open>\<^verbatim>\<open>data.results.map(...)\<close>: the first hit that throws aborts the map.\<close>

fun mapChunks :: "CloudflareSearchResult list \<Rightarrow> js_error + Chunk list" where
  "mapChunks [] = Inr []"
| "mapChunks (r # rs) =
     (case toChunk r of
        Inl e \<Rightarrow> Inl e
      | Inr c \<Rightarrow> (case mapChunks rs of Inl e \<Rightarrow> Inl e | Inr cs \<Rightarrow> Inr (c # cs)))"

subsection \<open>execute\<close>

record ActionInput =
  in_type :: string
  query :: string

definition emptyOutput :: ActionOutput where
  "emptyOutput = \<lparr>out_type = ''search_results'', out_results = []\<rparr>"

definition searchRequest :: "string \<Rightarrow> ActionInput \<Rightarrow> Request" where
  "searchRequest ragURL input =
     \<lparr>req_url = ragURL @ ''/search'',
      req_method = ''POST'',
      req_headers = [(''Content-Type'', ''application/json'')],
      req_body = \<lparr>body_query = query input, limit = 5, threshold = 1 / 2\<rparr>\<rparr>"

text \<open>
  The body of the \<^verbatim>\<open>try\<close> block (lines 82 to 127). \<open>Inl\<close> is a value thrown inside
  it; the early return on a non-2xx status is an ordinary result.
\<close>

definition tryBody ::
  "(Request \<Rightarrow> FetchOutcome) \<Rightarrow> (nat \<Rightarrow> string) \<Rightarrow> string \<Rightarrow> ActionInput \<Rightarrow> string \<Rightarrow>
     World \<Rightarrow> (js_error + ActionOutput) \<times> World" where
  "tryBody fetch gen ragURL input bid w0 =
     (let req = searchRequest ragURL input;
          w1 = emit (Fetch req) w0
      in case fetch req of
           FetchRejects msg \<Rightarrow> (Inl (NetworkError msg), w1)
         | FetchResponse isOk st bdy \<Rightarrow>
             if \<not> isOk then (Inr emptyOutput, emit (ConsoleError ''captionSearch: API error'') w1)
             else
               (case bdy of
                  BodyNotJSON msg \<Rightarrow> (Inl (SyntaxError msg), w1)
                | BodyJSON data \<Rightarrow>
                    (case results data of
                       None \<Rightarrow>
                         (Inl (TypeError ''data.results.map is not a function''), w1)
                     | Some hits \<Rightarrow>
                         (case mapChunks hits of
                            Inl e \<Rightarrow> (Inl e, w1)
                          | Inr chunks \<Rightarrow>
                              (let (searchResultsBlockId, w2) = randomUUID gen w1;
                                   w3 = (if isResearch (getBlock w2 bid)
                                         then pushSubStep bid
                                                (SearchResults searchResultsBlockId chunks) w2
                                         else w2)
                               in (Inr \<lparr>out_type = ''search_results'',
                                        out_results = chunks\<rparr>, w3))))))"

text \<open>
  The \<open>searching\<close> marker (lines 65 to 79): only a research block receives it.
\<close>

definition markSearching :: "(nat \<Rightarrow> string) \<Rightarrow> ActionInput \<Rightarrow> string \<Rightarrow> World \<Rightarrow> World" where
  "markSearching gen input bid w =
     (if isResearch (getBlock w bid)
      then (let (u, w') = randomUUID gen w
            in pushSubStep bid (Searching u [''CraftyPanda: '' @ query input]) w')
      else w)"

text \<open>
  \<open>execute\<close> (lines 52 to 132): the configuration check, the \<open>searching\<close> marker, and
  the \<^verbatim>\<open>try\<close>/\<^verbatim>\<open>catch\<close> around the remote call. The \<^verbatim>\<open>catch\<close> turns every
  thrown value into the empty result.
\<close>

definition execute ::
  "environment \<Rightarrow> (Request \<Rightarrow> FetchOutcome) \<Rightarrow> (nat \<Rightarrow> string) \<Rightarrow> ActionInput \<Rightarrow> string \<Rightarrow>
     World \<Rightarrow> (js_error + ActionOutput) \<times> World" where
  "execute env fetch gen input bid w =
     (let ragURL = getCloudflareRAGURL env
      in if ragURL = []
         then (Inr emptyOutput,
               emit (ConsoleWarn ''captionSearch: CLOUDFLARE_RAG_URL not configured'') w)
         else
           (case tryBody fetch gen ragURL input bid (markSearching gen input bid w) of
              (Inl err, w2) \<Rightarrow>
                (Inr emptyOutput, emit (ConsoleError ''captionSearch: fetch error'') w2)
            | (Inr out, w2) \<Rightarrow> (Inr out, w2)))"

subsection \<open>Outcomes of the remote call\<close>

text \<open>
  The mapping throws exactly when some hit has no usable \<open>folderName\<close>.
\<close>

definition mappingThrows :: "CloudflareSearchResult list \<Rightarrow> bool" where
  "mappingThrows hits = list_ex (\<lambda>h. folderName h = None) hits"

text \<open>
  The failure outcomes: the endpoint is not configured, the fetch rejects (transport
  failure), the status is not 2xx, or the response has a shape on which decoding or
  mapping throws (the body does not decode, \<open>results\<close> is not an array, or a hit has no
  \<open>folderName\<close>). A hit that lacks another field is not among them: the mapping copies
  it as it is.
\<close>

definition remoteFailure :: "environment \<Rightarrow> (Request \<Rightarrow> FetchOutcome) \<Rightarrow> ActionInput \<Rightarrow> bool" where
  "remoteFailure env fetch input =
     (getCloudflareRAGURL env = [] \<or>
      (case fetch (searchRequest (getCloudflareRAGURL env) input) of
         FetchRejects msg \<Rightarrow> True
       | FetchResponse isOk st bdy \<Rightarrow>
           (if isOk
            then (case bdy of
                    BodyNotJSON msg \<Rightarrow> True
                  | BodyJSON data \<Rightarrow>
                      (case results data of None \<Rightarrow> True | Some hits \<Rightarrow> mappingThrows hits))
            else True)))"

text \<open>The chunk a well-formed hit maps to, and the pieces of a progress update.\<close>

definition chunkOf :: "CloudflareSearchResult \<Rightarrow> Chunk" where
  "chunkOf r = \<lparr>content = hit_content r,
               metadata = \<lparr>title = ''CraftyPanda: '' @ replaceUnderscores (the (folderName r)),
                           url = ''craftypanda://caption/'' @ templateText (hit_id r),
                           source = ''CraftyPanda Historical'',
                           platform = hit_platform r,
                           holiday = hit_holiday r,
                           imageCount = hit_imageCount r,
                           score = hit_score r\<rparr>\<rparr>"

definition searchingStep :: "(nat \<Rightarrow> string) \<Rightarrow> ActionInput \<Rightarrow> World \<Rightarrow> SubStep" where
  "searchingStep gen input w = Searching (gen (uuidsDrawn w)) [''CraftyPanda: '' @ query input]"

definition replacePatch :: "SubStep list \<Rightarrow> PatchOp list" where
  "replacePatch steps = [\<lparr>op = ''replace'', path = ''/data/subSteps'', patch_value = steps\<rparr>]"

subsection \<open>Sample inputs\<close>

definition env0 :: environment where
  "env0 = \<lparr>CLOUDFLARE_RAG_URL = Some ''https://rag.test'', config_cloudflareRAGURL = []\<rparr>"

definition gen0 :: "nat \<Rightarrow> string" where
  "gen0 n = ''uuid-'' @ replicate n (CHR ''i'')"

definition input0 :: ActionInput where
  "input0 = \<lparr>in_type = ''caption_search'', query = ''wreath''\<rparr>"

definition hit0 :: CloudflareSearchResult where
  "hit0 = \<lparr>hit_id = Some ''p1'', hit_content = Some ''Fall wreath'',
           folderName = Some ''fall_wreath_2021'', hit_platform = Some ''instagram'',
           hit_holiday = None, hit_imageCount = Some 2, hit_score = Some (3 / 4)\<rparr>"



definition fetchOk :: "Request \<Rightarrow> FetchOutcome" where
  "fetchOk req = FetchResponse True 200
     (BodyJSON \<lparr>resp_query = ''wreath'', results = Some [hit0], total = 1\<rparr>)"

definition fetchDown :: "Request \<Rightarrow> FetchOutcome" where
  "fetchDown req = FetchRejects ''ECONNREFUSED''"






definition w0 :: World where
  "w0 = \<lparr>blocks = [''b1'' \<mapsto> Research []], uuidsDrawn = 0, events = []\<rparr>"

section \<open>LLM provider adapter (openaiLLM.ts)\<close>

subsection \<open>JSON values and the library parsers\<close>

datatype json =
    JNull
  | JBool bool
  | JNumber rat
  | JString string
  | JArray "json list"
  | JObject "(string \<times> json) list"

text \<open>
  The parsers are libraries outside the repository: \<^verbatim>\<open>parse\<close> of partial-json,
  \<^verbatim>\<open>JSON.parse\<close>, \<^verbatim>\<open>repairJson\<close>, and the schema's \<^verbatim>\<open>safeParse\<close>. Each is a
  parameter of the model; a parser that throws returns \<open>Inl\<close>.
\<close>

type_synonym parser = "string \<Rightarrow> js_error + json"

text \<open>
  \<^verbatim>\<open>`${err}`\<close>: the text of a thrown value, its name and message; the text of the
  schema library's error is its message alone.
\<close>

fun errorText :: "js_error \<Rightarrow> string" where
  "errorText (TypeError m) = ''TypeError: '' @ m"
| "errorText (SyntaxError m) = ''SyntaxError: '' @ m"
| "errorText (NetworkError m) = ''NetworkError: '' @ m"
| "errorText (ZodError m) = m"
| "errorText (Error m) = ''Error: '' @ m"

subsection \<open>String operations\<close>

definition startsWith :: "string \<Rightarrow> string \<Rightarrow> bool" where
  "startsWith s p = prefix p s"

fun includesStr :: "string \<Rightarrow> string \<Rightarrow> bool" where
  "includesStr [] sub = (sub = [])"
| "includesStr (c # cs) sub = (prefix sub (c # cs) \<or> includesStr cs sub)"

text \<open>
  White space as \<^verbatim>\<open>String.prototype.trim\<close> and the regular expression class
  \<^verbatim>\<open>\s\<close> read it (the same set), within the Latin-1 range: tab, line feed, vertical
  tab, form feed, carriage return, space and no-break space.
\<close>

definition isSpace :: "char \<Rightarrow> bool" where
  "isSpace c = (c \<in> {CHR 0x09, CHR 0x0A, CHR 0x0B, CHR 0x0C, CHR 0x0D, CHR 0x20, CHR 0xA0})"

definition trimEnd :: "string \<Rightarrow> string" where
  "trimEnd s = rev (dropWhile isSpace (rev s))"

definition trim :: "string \<Rightarrow> string" where
  "trim s = trimEnd (dropWhile isSpace s)"

text \<open>Decimal text of an index, for \<^verbatim>\<open>`tool_${tc.index}`\<close>.\<close>

function showNat :: "nat \<Rightarrow> string" where
  "showNat n =
     (if n < 10 then [''0123456789'' ! n]
      else showNat (n div 10) @ [''0123456789'' ! (n mod 10)])"
  by pat_completeness auto
termination
  by (relation "measure id") auto

declare showNat.simps [simp del]

subsection \<open>stripMarkdownCodeFence\<close>

text \<open>
  The regular expression \<^verbatim>\<open>/^```(?:json)?\s*([\s\S]*?)\s*```$/\<close> as a backtracking
  matcher, one combinator per piece, each taking the continuation that matches the rest
  of the pattern. A greedy piece tries its longest match first, the lazy group its
  shortest; the first success in that order is the match, as in JavaScript.
\<close>

definition fenceMark :: string where
  "fenceMark = ''```''"

definition lit :: "string \<Rightarrow> (string \<Rightarrow> 'a option) \<Rightarrow> string \<Rightarrow> 'a option" where
  "lit p k s = (if prefix p s then k (drop (length p) s) else None)"

definition optLit :: "string \<Rightarrow> (string \<Rightarrow> 'a option) \<Rightarrow> string \<Rightarrow> 'a option" where
  "optLit p k s = (case lit p k s of Some r \<Rightarrow> Some r | None \<Rightarrow> k s)"

fun spacesGreedy :: "(string \<Rightarrow> 'a option) \<Rightarrow> string \<Rightarrow> 'a option" where
  "spacesGreedy k [] = k []"
| "spacesGreedy k (c # cs) =
     (if isSpace c
      then (case spacesGreedy k cs of Some r \<Rightarrow> Some r | None \<Rightarrow> k (c # cs))
      else k (c # cs))"

fun anyLazy :: "string \<Rightarrow> (string \<Rightarrow> string \<Rightarrow> 'a option) \<Rightarrow> string \<Rightarrow> 'a option" where
  "anyLazy cap k [] = k cap []"
| "anyLazy cap k (c # cs) =
     (case k cap (c # cs) of Some r \<Rightarrow> Some r | None \<Rightarrow> anyLazy (cap @ [c]) k cs)"

definition atEnd :: "'a \<Rightarrow> string \<Rightarrow> 'a option" where
  "atEnd r s = (if s = [] then Some r else None)"

definition matchFence :: "string \<Rightarrow> string option" where
  "matchFence s =
     lit fenceMark
       (optLit ''json''
          (spacesGreedy
             (anyLazy [] (\<lambda>cap. spacesGreedy (lit fenceMark (atEnd cap)))))) s"

definition stripMarkdownCodeFence :: "string \<Rightarrow> string" where
  "stripMarkdownCodeFence s = (case matchFence s of Some g \<Rightarrow> g | None \<Rightarrow> s)"

subsection \<open>generateObject\<close>

record OpenAIConfig =
  apiKey :: string
  model :: string
  baseURL :: "string option"

text \<open>
  \<^verbatim>\<open>baseURL?.includes('groq') || model?.startsWith('groq/') || model?.startsWith('openrouter/')\<close>
\<close>

definition needsJsonObjectMode :: "OpenAIConfig \<Rightarrow> bool" where
  "needsJsonObjectMode cfg =
     ((case baseURL cfg of Some b \<Rightarrow> includesStr b ''groq'' | None \<Rightarrow> False) \<or>
      startsWith (model cfg) ''groq/'' \<or>
      startsWith (model cfg) ''openrouter/'')"

text \<open>
  The completion the remote service returns. \<open>message.content\<close> may be null;
  a missing \<open>choices\<close> is the empty list.
\<close>

record ChatMessage =
  message_content :: "string option"

record ChatChoice =
  message :: ChatMessage

record ChatCompletion =
  completion_choices :: "ChatChoice list"

text \<open>
  The body of the \<^verbatim>\<open>try\<close> block (lines 288 to 308), with the console warnings it
  writes. \<open>safeParse\<close> returns the validated data or the issues; \<^verbatim>\<open>schema.parse\<close> is
  the same check, throwing the issues.
\<close>

definition parseContent ::
  "OpenAIConfig \<Rightarrow> (string \<Rightarrow> js_error + string) \<Rightarrow> parser \<Rightarrow> (json \<Rightarrow> string + json) \<Rightarrow>
     ChatChoice \<Rightarrow> (js_error + json) \<times> string list" where
  "parseContent cfg repairJson jsonParse safeParse c =
     (case message_content (message c) of
        None \<Rightarrow>
          (Inl (TypeError (''Cannot read properties of null (reading '' @ [CHR 0x27] @
                           ''trim'' @ [CHR 0x27] @ '')'')), [])
      | Some rawContent \<Rightarrow>
          (let strippedContent = stripMarkdownCodeFence (trim rawContent)
           in case repairJson strippedContent of
                Inl e \<Rightarrow> (Inl e, [])
              | Inr repaired \<Rightarrow>
                  (case jsonParse repaired of
                     Inl e \<Rightarrow> (Inl e, [])
                   | Inr parsed \<Rightarrow>
                       if needsJsonObjectMode cfg
                       then (case safeParse parsed of
                               Inr data \<Rightarrow> (Inr data, [])
                             | Inl issues \<Rightarrow>
                                 (Inr parsed,
                                  [''Schema validation failed, attempting partial parse: ''
                                     @ issues]))
                       else (case safeParse parsed of
                               Inr data \<Rightarrow> (Inr data, [])
                             | Inl issues \<Rightarrow> (Inl (ZodError issues), [])))))"

text \<open>
  \<open>generateObject\<close> from the response on (lines 286 to 314); the request it sends does
  not enter the result except through the response.
\<close>

definition generateObject ::
  "OpenAIConfig \<Rightarrow> (string \<Rightarrow> js_error + string) \<Rightarrow> parser \<Rightarrow> (json \<Rightarrow> string + json) \<Rightarrow>
     ChatCompletion \<Rightarrow> (js_error + json) \<times> string list" where
  "generateObject cfg repairJson jsonParse safeParse response =
     (case completion_choices response of
        [] \<Rightarrow> (Inl (Error ''No response from OpenAI''), [])
      | c # cs \<Rightarrow>
          (case parseContent cfg repairJson jsonParse safeParse c of
             (Inl err, logs) \<Rightarrow>
               (Inl (Error (''Error parsing response from OpenAI: '' @ errorText err)), logs)
           | (Inr obj, logs) \<Rightarrow> (Inr obj, logs)))"

text \<open>A JSON text wrapped in a markdown code fence.\<close>

definition fenced :: "string \<Rightarrow> string" where
  "fenced t = fenceMark @ ''json'' @ [CHR 0x0A] @ t @ [CHR 0x0A] @ fenceMark"

definition responseWith :: "string \<Rightarrow> ChatCompletion" where
  "responseWith t = \<lparr>completion_choices = [\<lparr>message = \<lparr>message_content = Some t\<rparr>\<rparr>]\<rparr>"

subsection \<open>streamText\<close>

record FunctionDelta =
  fn_name :: "string option"
  fn_arguments :: "string option"

record ToolCallDelta =
  tc_index :: nat
  tc_id :: "string option"
  tc_function :: "FunctionDelta option"

record Delta =
  delta_content :: "string option"
  tool_calls :: "ToolCallDelta list option"

record StreamChoice =
  delta :: Delta
  finish_reason :: "string option"

record ChatChunk =
  chunk_choices :: "StreamChoice list"

text \<open>An accumulator of \<open>recievedToolCalls\<close>, and a parsed tool call of an update.\<close>

record ReceivedCall =
  rc_name :: string
  rc_id :: string
  rc_arguments :: string

record ToolCall =
  name :: string
  call_id :: string
  arguments :: json

record StreamTextOutput =
  contentChunk :: string
  toolCallChunk :: "ToolCall list"
  done_flag :: bool
  finishReason :: "string option"

text \<open>\<^verbatim>\<open>xs[i]\<close>: undefined past the end of the array.\<close>

definition nthOpt :: "'a list \<Rightarrow> nat \<Rightarrow> 'a option" where
  "nthOpt xs i = (if i < length xs then Some (xs ! i) else None)"

text \<open>\<^verbatim>\<open>x || d\<close> on an optional string: undefined and the empty string are falsy.\<close>

definition orElse :: "string option \<Rightarrow> string \<Rightarrow> string" where
  "orElse x d = (case x of Some s \<Rightarrow> if s \<noteq> [] then s else d | None \<Rightarrow> d)"

definition toolId :: "nat \<Rightarrow> string" where
  "toolId i = ''tool_'' @ showNat i"

definition fragmentOf :: "ToolCallDelta \<Rightarrow> string" where
  "fragmentOf tc =
     orElse (case tc_function tc of Some f \<Rightarrow> fn_arguments f | None \<Rightarrow> None) []"

definition newCall :: "ToolCallDelta \<Rightarrow> ReceivedCall" where
  "newCall tc =
     \<lparr>rc_name = orElse (case tc_function tc of Some f \<Rightarrow> fn_name f | None \<Rightarrow> None) [],
      rc_id = orElse (tc_id tc) (toolId (tc_index tc)),
      rc_arguments = fragmentOf tc\<rparr>"

text \<open>The \<^verbatim>\<open>catch\<close> branch (lines 218 to 223).\<close>

definition fallbackCall :: "ReceivedCall list \<Rightarrow> nat \<Rightarrow> ToolCall" where
  "fallbackCall rcv i =
     (case nthOpt rcv i of
        Some c \<Rightarrow> \<lparr>name = rc_name c, call_id = rc_id c, arguments = JObject []\<rparr>
      | None \<Rightarrow> \<lparr>name = [], call_id = toolId i, arguments = JObject []\<rparr>)"

text \<open>
  One tool-call delta (lines 201 to 223): the accumulator list is changed first (a push,
  or the concatenation onto the accumulator found at the delta's index), then the
  accumulated text is parsed.
\<close>

definition parseCall :: "parser \<Rightarrow> ReceivedCall list \<Rightarrow> nat \<Rightarrow> ReceivedCall \<Rightarrow> ToolCall" where
  "parseCall parse rcv i call =
     (case parse (orElse (Some (rc_arguments call)) ''{}'') of
        Inr v \<Rightarrow> \<lparr>name = rc_name call, call_id = rc_id call, arguments = v\<rparr>
      | Inl e \<Rightarrow> fallbackCall rcv i)"

definition processToolCall ::
  "parser \<Rightarrow> ReceivedCall list \<Rightarrow> ToolCallDelta \<Rightarrow> ToolCall \<times> ReceivedCall list" where
  "processToolCall parse rcv tc =
     (case nthOpt rcv (tc_index tc) of
        None \<Rightarrow>
          (let call = newCall tc;
               rcv' = rcv @ [call]
           in (parseCall parse rcv' (tc_index tc) call, rcv'))
      | Some existingCall \<Rightarrow>
          (let call = existingCall\<lparr>rc_arguments := rc_arguments existingCall @ fragmentOf tc\<rparr>;
               rcv' = rcv[tc_index tc := call]
           in (parseCall parse rcv' (tc_index tc) call, rcv')))"

fun processToolCalls ::
  "parser \<Rightarrow> ReceivedCall list \<Rightarrow> ToolCallDelta list \<Rightarrow> ToolCall list \<times> ReceivedCall list" where
  "processToolCalls parse rcv [] = ([], rcv)"
| "processToolCalls parse rcv (tc # tcs) =
     (let (p, rcv') = processToolCall parse rcv tc;
          (ps, rcv'') = processToolCalls parse rcv' tcs
      in (p # ps, rcv''))"

text \<open>One chunk of the stream: a chunk without choices yields nothing.\<close>

definition streamStep ::
  "parser \<Rightarrow> ReceivedCall list \<Rightarrow> ChatChunk \<Rightarrow> StreamTextOutput option \<times> ReceivedCall list" where
  "streamStep parse rcv chunk =
     (case chunk_choices chunk of
        [] \<Rightarrow> (None, rcv)
      | c # cs \<Rightarrow>
          (let (parsedToolCalls, rcv') =
                 (case tool_calls (delta c) of
                    None \<Rightarrow> ([], rcv)
                  | Some tcs \<Rightarrow> processToolCalls parse rcv tcs)
           in (Some \<lparr>contentChunk = orElse (delta_content (delta c)) [],
                     toolCallChunk = parsedToolCalls,
                     done_flag = (finish_reason c \<noteq> None),
                     finishReason = finish_reason c\<rparr>, rcv')))"

text \<open>
  The generator, as the list of updates a consumer that drains it receives from a finite
  upstream stream.
\<close>

fun streamTextFrom :: "parser \<Rightarrow> ReceivedCall list \<Rightarrow> ChatChunk list \<Rightarrow> StreamTextOutput list" where
  "streamTextFrom parse rcv [] = []"
| "streamTextFrom parse rcv (chunk # chunks) =
     (case streamStep parse rcv chunk of
        (None, rcv') \<Rightarrow> streamTextFrom parse rcv' chunks
      | (Some u, rcv') \<Rightarrow> u # streamTextFrom parse rcv' chunks)"

definition streamText :: "parser \<Rightarrow> ChatChunk list \<Rightarrow> StreamTextOutput list" where
  "streamText parse chunks = streamTextFrom parse [] chunks"

text \<open>The accumulator list after a stream.\<close>

fun accumulatorsAfter :: "parser \<Rightarrow> ReceivedCall list \<Rightarrow> ChatChunk list \<Rightarrow> ReceivedCall list" where
  "accumulatorsAfter parse rcv [] = rcv"
| "accumulatorsAfter parse rcv (chunk # chunks) =
     accumulatorsAfter parse (snd (streamStep parse rcv chunk)) chunks"

subsection \<open>streamObject\<close>

datatype ResponseEvent =
    OutputTextDelta string
  | OutputTextDone string
  | OtherEvent string

text \<open>
  The generator (lines 339 to 356) as the list of yielded values together with the error
  it throws, if any; nothing is yielded after a throw. An empty \<open>delta\<close> or \<open>text\<close> is
  falsy and the event is skipped.
\<close>

fun streamObjectFrom :: "parser \<Rightarrow> string \<Rightarrow> ResponseEvent list \<Rightarrow> json list \<times> js_error option" where
  "streamObjectFrom parse recievedObj [] = ([], None)"
| "streamObjectFrom parse recievedObj (OutputTextDelta d # es) =
     (if d \<noteq> []
      then (let (ys, err) = streamObjectFrom parse (recievedObj @ d) es
            in ((case parse (recievedObj @ d) of Inr v \<Rightarrow> v | Inl e \<Rightarrow> JObject []) # ys, err))
      else streamObjectFrom parse recievedObj es)"
| "streamObjectFrom parse recievedObj (OutputTextDone t # es) =
     (if t \<noteq> []
      then (case parse t of
              Inr v \<Rightarrow> (let (ys, err) = streamObjectFrom parse recievedObj es in (v # ys, err))
            | Inl e \<Rightarrow>
                ([], Some (Error (''Error parsing response from OpenAI: '' @ errorText e))))
      else streamObjectFrom parse recievedObj es)"
| "streamObjectFrom parse recievedObj (OtherEvent ty # es) =
     streamObjectFrom parse recievedObj es"

definition streamObject :: "parser \<Rightarrow> ResponseEvent list \<Rightarrow> json list \<times> js_error option" where
  "streamObject parse es = streamObjectFrom parse [] es"

subsection \<open>Sample parsers and configurations\<close>

text \<open>
  A finite sample of a tolerant JSON parser on the texts used in the examples (complete
  texts parse as JSON, a text cut inside an object parses to the fields read so far, any
  other text throws), a repair step that changes nothing, a schema that requires a field
  \<open>x\<close>, and one configuration for each mode.
\<close>

definition sampleParse :: parser where
  \<open>sampleParse s =
     (if s = ''{"a":1,"b":2}'' then Inr (JObject [(''a'', JNumber 1), (''b'', JNumber 2)])
      else if s = ''{"a":1'' then Inr (JObject [(''a'', JNumber 1)])
      else if s = ''{"a":1,"b":'' then Inr (JObject [(''a'', JNumber 1)])
      else if s = ''{"x":1}'' then Inr (JObject [(''x'', JNumber 1)])
      else if s = ''{}'' then Inr (JObject [])
      else Inl (SyntaxError ''Unexpected token''))\<close>

definition repairNothing :: "string \<Rightarrow> js_error + string" where
  "repairNothing s = Inr s"

definition requiresX :: "json \<Rightarrow> string + json" where
  "requiresX j =
     (case j of
        JObject kvs \<Rightarrow> if map_of kvs ''x'' \<noteq> None then Inr j else Inl ''x: Required''
      | _ \<Rightarrow> Inl ''expected object'')"

definition cfgEnforced :: OpenAIConfig where
  "cfgEnforced = \<lparr>apiKey = ''k'', model = ''gpt-4o-mini'', baseURL = None\<rparr>"

definition cfgDegraded :: OpenAIConfig where
  "cfgDegraded = \<lparr>apiKey = ''k'', model = ''groq/llama-3'', baseURL = None\<rparr>"

subsection \<open>Notions used to state the properties of the streams\<close>

text \<open>
  The text accumulated from the delta events of a stream.
\<close>

fun accumulatedText :: "ResponseEvent list \<Rightarrow> string" where
  "accumulatedText [] = []"
| "accumulatedText (OutputTextDelta d # es) = d @ accumulatedText es"
| "accumulatedText (OutputTextDone t # es) = accumulatedText es"
| "accumulatedText (OtherEvent ty # es) = accumulatedText es"

subsection \<open>Index-keyed accumulation\<close>

text \<open>
  The accumulation as the specification words it, for comparison with the code: keyed
  by the position index, an ordered map from index to accumulator. A tool call's
  argument text is accumulated across the chunks that share its index and parsed on
  every chunk; text that does not parse gives the empty object for that call.
\<close>

definition parseCallKeyed :: "parser \<Rightarrow> ReceivedCall \<Rightarrow> ToolCall" where
  "parseCallKeyed parse call =
     (case parse (orElse (Some (rc_arguments call)) ''{}'') of
        Inr v \<Rightarrow> \<lparr>name = rc_name call, call_id = rc_id call, arguments = v\<rparr>
      | Inl e \<Rightarrow> \<lparr>name = rc_name call, call_id = rc_id call, arguments = JObject []\<rparr>)"

definition processToolCallKeyed ::
  "parser \<Rightarrow> (nat \<rightharpoonup> ReceivedCall) \<Rightarrow> ToolCallDelta \<Rightarrow> ToolCall \<times> (nat \<rightharpoonup> ReceivedCall)" where
  "processToolCallKeyed parse m tc =
     (let call = (case m (tc_index tc) of
                    None \<Rightarrow> newCall tc
                  | Some existingCall \<Rightarrow>
                      existingCall\<lparr>rc_arguments := rc_arguments existingCall @ fragmentOf tc\<rparr>)
      in (parseCallKeyed parse call, m(tc_index tc \<mapsto> call)))"

fun processToolCallsKeyed ::
  "parser \<Rightarrow> (nat \<rightharpoonup> ReceivedCall) \<Rightarrow> ToolCallDelta list \<Rightarrow>
     ToolCall list \<times> (nat \<rightharpoonup> ReceivedCall)" where
  "processToolCallsKeyed parse m [] = ([], m)"
| "processToolCallsKeyed parse m (tc # tcs) =
     (let (p, m') = processToolCallKeyed parse m tc;
          (ps, m'') = processToolCallsKeyed parse m' tcs
      in (p # ps, m''))"

definition streamStepKeyed ::
  "parser \<Rightarrow> (nat \<rightharpoonup> ReceivedCall) \<Rightarrow> ChatChunk \<Rightarrow>
     StreamTextOutput option \<times> (nat \<rightharpoonup> ReceivedCall)" where
  "streamStepKeyed parse m chunk =
     (case chunk_choices chunk of
        [] \<Rightarrow> (None, m)
      | c # cs \<Rightarrow>
          (let (parsedToolCalls, m') =
                 (case tool_calls (delta c) of
                    None \<Rightarrow> ([], m)
                  | Some tcs \<Rightarrow> processToolCallsKeyed parse m tcs)
           in (Some \<lparr>contentChunk = orElse (delta_content (delta c)) [],
                     toolCallChunk = parsedToolCalls,
                     done_flag = (finish_reason c \<noteq> None),
                     finishReason = finish_reason c\<rparr>, m')))"

fun streamTextKeyedFrom ::
  "parser \<Rightarrow> (nat \<rightharpoonup> ReceivedCall) \<Rightarrow> ChatChunk list \<Rightarrow> StreamTextOutput list" where
  "streamTextKeyedFrom parse m [] = []"
| "streamTextKeyedFrom parse m (chunk # chunks) =
     (case streamStepKeyed parse m chunk of
        (None, m') \<Rightarrow> streamTextKeyedFrom parse m' chunks
      | (Some u, m') \<Rightarrow> u # streamTextKeyedFrom parse m' chunks)"

definition streamTextKeyed :: "parser \<Rightarrow> ChatChunk list \<Rightarrow> StreamTextOutput list" where
  "streamTextKeyed parse chunks = streamTextKeyedFrom parse Map.empty chunks"

text \<open>
  The tool-call indices of a stream in the order they are processed, and the streams
  whose indices first appear in increasing contiguous order starting at 0: each index
  is one seen before or the next unused one.
\<close>

definition chunkIndices :: "ChatChunk \<Rightarrow> nat list" where
  "chunkIndices chunk =
     (case chunk_choices chunk of
        [] \<Rightarrow> []
      | c # cs \<Rightarrow> (case tool_calls (delta c) of None \<Rightarrow> [] | Some tcs \<Rightarrow> map tc_index tcs))"

fun contiguousFrom :: "nat \<Rightarrow> nat list \<Rightarrow> bool" where
  "contiguousFrom n [] = True"
| "contiguousFrom n (i # js) =
     (if i < n then contiguousFrom n js
      else if i = n then contiguousFrom (Suc n) js
      else False)"

definition indicesInOrder :: "ChatChunk list \<Rightarrow> bool" where
  "indicesInOrder chunks = contiguousFrom 0 (concat (map chunkIndices chunks))"

text \<open>Sample chunks: one tool-call delta, or a piece of text with a finish reason.\<close>

definition toolDelta :: "nat \<Rightarrow> string option \<Rightarrow> string option \<Rightarrow> string \<Rightarrow> ChatChunk" where
  "toolDelta i cid nm frag =
     \<lparr>chunk_choices =
        [\<lparr>delta = \<lparr>delta_content = None,
                   tool_calls = Some [\<lparr>tc_index = i, tc_id = cid,
                                       tc_function = Some \<lparr>fn_name = nm,
                                                          fn_arguments = Some frag\<rparr>\<rparr>]\<rparr>,
          finish_reason = None\<rparr>]\<rparr>"

definition textChunk :: "string \<Rightarrow> string option \<Rightarrow> ChatChunk" where
  "textChunk s fin =
     \<lparr>chunk_choices =
        [\<lparr>delta = \<lparr>delta_content = Some s, tool_calls = None\<rparr>, finish_reason = fin\<rparr>]\<rparr>"

text \<open>
  The events of \<open>streamObject\<close> that yield (a delta or a done event with non-empty
  text), and the one that makes it throw (a done event whose text does not parse).
\<close>

fun yielding :: "ResponseEvent \<Rightarrow> bool" where
  "yielding (OutputTextDelta d) = (d \<noteq> [])"
| "yielding (OutputTextDone t) = (t \<noteq> [])"
| "yielding (OtherEvent ty) = False"

fun terminalFailure :: "parser \<Rightarrow> ResponseEvent \<Rightarrow> bool" where
  "terminalFailure parse (OutputTextDone t) =
     (t \<noteq> [] \<and> (case parse t of Inl e \<Rightarrow> True | Inr v \<Rightarrow> False))"
| "terminalFailure parse (OutputTextDelta d) = False"
| "terminalFailure parse (OtherEvent ty) = False"

section \<open>Properties of the caption search action\<close>

subsection \<open>Auxiliary facts\<close>

lemma mapChunks_throws: "mappingThrows hits \<Longrightarrow> \<exists>e. mapChunks hits = Inl e"
  by (induction hits) (auto simp: mappingThrows_def toChunk_def split: option.splits sum.splits)

lemma mapChunks_ok: "\<not> mappingThrows hits \<Longrightarrow> mapChunks hits = Inr (map chunkOf hits)"
  by (induction hits)
     (auto simp: mappingThrows_def toChunk_def chunkOf_def split: option.splits sum.splits)


lemma tryBody_failure:
  assumes "remoteFailure env fetch input" "getCloudflareRAGURL env \<noteq> []"
  shows "fst (tryBody fetch gen (getCloudflareRAGURL env) input bid w) = Inr emptyOutput \<or>
         (\<exists>e. fst (tryBody fetch gen (getCloudflareRAGURL env) input bid w) = Inl e)"
  using assms
  by (auto simp: remoteFailure_def tryBody_def Let_def dest!: mapChunks_throws
      split: FetchOutcome.splits ResponseBody.splits option.splits sum.splits if_splits
        prod.splits)

lemma tryBody_failure_blocks:
  assumes "remoteFailure env fetch input" "getCloudflareRAGURL env \<noteq> []"
  shows "blocks (snd (tryBody fetch gen (getCloudflareRAGURL env) input bid w)) = blocks w"
  using assms
  by (auto simp: remoteFailure_def tryBody_def Let_def emit_def dest!: mapChunks_throws
      split: FetchOutcome.splits ResponseBody.splits option.splits sum.splits if_splits
        prod.splits)

lemma tryBody_success:
  assumes "fetch (searchRequest ragURL input) = FetchResponse True st (BodyJSON data)"
    and "results data = Some hits"
    and "\<not> mappingThrows hits"
  shows "tryBody fetch gen ragURL input bid w =
     (Inr \<lparr>out_type = ''search_results'', out_results = map chunkOf hits\<rparr>,
      (let w1 = emit (Fetch (searchRequest ragURL input)) w;
           w2 = w1\<lparr>uuidsDrawn := Suc (uuidsDrawn w1)\<rparr>
       in if isResearch (getBlock w2 bid)
          then pushSubStep bid (SearchResults (gen (uuidsDrawn w1)) (map chunkOf hits)) w2
          else w2))"
  using assms by (simp add: tryBody_def Let_def mapChunks_ok randomUUID_def)

lemma pushSubStep_research:
  "blocks w bid = Some (Research old) \<Longrightarrow>
   pushSubStep bid step w =
     w\<lparr>blocks := (blocks w)(bid \<mapsto> Research (old @ [step])),
       events := events w @ [UpdateBlock bid (replacePatch (old @ [step]))]\<rparr>"
  by (simp add: pushSubStep_def updateBlock_def emit_def replacePatch_def)

lemma markSearching_research:
  "getBlock w bid = Some (Research old) \<Longrightarrow>
   markSearching gen input bid w =
     w\<lparr>blocks := (blocks w)(bid \<mapsto> Research (old @ [searchingStep gen input w])),
       uuidsDrawn := Suc (uuidsDrawn w),
       events := events w @
         [UpdateBlock bid (replacePatch (old @ [searchingStep gen input w]))]\<rparr>"
  by (simp add: markSearching_def isResearch_def getBlock_def randomUUID_def
      pushSubStep_research searchingStep_def)

lemma execute_configured:
  "getCloudflareRAGURL env \<noteq> [] \<Longrightarrow>
   execute env fetch gen input bid w =
     (case tryBody fetch gen (getCloudflareRAGURL env) input bid (markSearching gen input bid w) of
        (Inl err, w2) \<Rightarrow> (Inr emptyOutput, emit (ConsoleError ''captionSearch: fetch error'') w2)
      | (Inr out, w2) \<Rightarrow> (Inr out, w2))"
  by (simp add: execute_def)

lemma execute_blocks:
  "getCloudflareRAGURL env \<noteq> [] \<Longrightarrow>
   blocks (snd (execute env fetch gen input bid w)) =
   blocks (snd (tryBody fetch gen (getCloudflareRAGURL env) input bid
                  (markSearching gen input bid w)))"
  by (simp add: execute_configured emit_def split: prod.splits sum.splits)

lemma env0_configured: "getCloudflareRAGURL env0 \<noteq> []"
  by (simp add: getCloudflareRAGURL_def env0_def)

lemma fetchDown_fails: "remoteFailure env0 fetchDown input0"
  by (simp add: remoteFailure_def fetchDown_def)

lemma hit0_ok: "\<not> mappingThrows [hit0]"
  by (simp add: mappingThrows_def hit0_def)

lemma w0_block: "getBlock w0 ''b1'' = Some (Research [])"
  by (simp add: getBlock_def w0_def)

lemma fetchOk_response:
  "fetchOk (searchRequest (getCloudflareRAGURL env0) input0) =
     FetchResponse True 200
       (BodyJSON \<lparr>resp_query = ''wreath'', results = Some [hit0], total = 1\<rparr>)"
  by (simp add: fetchOk_def)

subsection \<open>Failure containment\<close>




subsection \<open>Mapping of a successful response\<close>

text \<open>
  C5. When the endpoint is configured and the response is a 2xx whose body decodes to
  \<open>N\<close> hits (each with a folder name), \<open>execute\<close> returns exactly \<open>N\<close> chunks; the title
  of the i-th chunk is \<open>CraftyPanda: \<close> followed by the i-th hit's folder name with every
  underscore replaced by a space, and its url is \<open>craftypanda://caption/\<close> followed by
  the i-th hit's id (by the text \<open>undefined\<close> for a hit that has none).
\<close>

theorem successful_search_maps_hits:
  assumes "getCloudflareRAGURL env \<noteq> []"
    and "fetch (searchRequest (getCloudflareRAGURL env) input) =
           FetchResponse True st (BodyJSON data)"
    and "results data = Some hits"
    and "\<not> mappingThrows hits"
  shows "\<exists>out. fst (execute env fetch gen input bid w) = Inr out \<and>
           out_type out = ''search_results'' \<and>
           length (out_results out) = length hits \<and>
           (\<forall>i<length hits. \<forall>f. folderName (hits ! i) = Some f \<longrightarrow>
              title (metadata (out_results out ! i)) =
                ''CraftyPanda: '' @ map (\<lambda>c. if c = CHR ''_'' then CHR '' '' else c) f \<and>
              url (metadata (out_results out ! i)) =
                ''craftypanda://caption/'' @ templateText (hit_id (hits ! i)) \<and>
              (\<forall>ident. hit_id (hits ! i) = Some ident \<longrightarrow>
                 url (metadata (out_results out ! i)) = ''craftypanda://caption/'' @ ident))"
  by (simp add: execute_configured [OF assms(1)]
      tryBody_success [of fetch "getCloudflareRAGURL env" input st data hits, OF assms(2,3,4)]
      chunkOf_def replaceUnderscores_def templateText_def)

theorem successful_search_maps_hits_witness:
  "getCloudflareRAGURL env0 \<noteq> [] \<and>
   fetchOk (searchRequest (getCloudflareRAGURL env0) input0) =
     FetchResponse True 200
       (BodyJSON \<lparr>resp_query = ''wreath'', results = Some [hit0], total = 1\<rparr>) \<and>
   \<not> mappingThrows [hit0] \<and>
   (\<exists>out. fst (execute env0 fetchOk gen0 input0 ''b1'' w0) = Inr out \<and>
      length (out_results out) = 1 \<and>
      title (metadata (out_results out ! 0)) = ''CraftyPanda: fall wreath 2021'' \<and>
      url (metadata (out_results out ! 0)) = ''craftypanda://caption/p1'')"
proof -
  have r: "results \<lparr>resp_query = ''wreath'', results = Some [hit0], total = 1\<rparr> = Some [hit0]"
    by simp
  from successful_search_maps_hits
         [where fetch = fetchOk and env = env0 and input = input0 and gen = gen0
            and bid = "''b1''" and w = w0,
          OF env0_configured fetchOk_response r hit0_ok]
  obtain out where o: "fst (execute env0 fetchOk gen0 input0 ''b1'' w0) = Inr out"
    "length (out_results out) = length [hit0]"
    "\<forall>i<length [hit0]. \<forall>f. folderName ([hit0] ! i) = Some f \<longrightarrow>
              title (metadata (out_results out ! i)) =
                ''CraftyPanda: '' @ map (\<lambda>c. if c = CHR ''_'' then CHR '' '' else c) f \<and>
              url (metadata (out_results out ! i)) =
                ''craftypanda://caption/'' @ templateText (hit_id ([hit0] ! i)) \<and>
              (\<forall>ident. hit_id ([hit0] ! i) = Some ident \<longrightarrow>
                 url (metadata (out_results out ! i)) = ''craftypanda://caption/'' @ ident)"
    by blast
  from o(3) have "title (metadata (out_results out ! 0)) = ''CraftyPanda: fall wreath 2021'' \<and>
      url (metadata (out_results out ! 0)) = ''craftypanda://caption/p1''"
    by (simp add: hit0_def templateText_def)
  with o(1,2) env0_configured fetchOk_response hit0_ok show ?thesis by auto
qed

subsection \<open>Progress markers on the research block\<close>

text \<open>
  C6, as the code has it. The statement "every invocation with a research block appends
  exactly two sub-steps" fails when the remote call fails: with a rejecting fetch the
  block ends with the \<open>searching\<close> entry alone, and only one \<open>updateBlock\<close> call is made.
\<close>

theorem research_block_two_steps_counterexample:
  "getBlock w0 ''b1'' = Some (Research []) \<and>
   getBlock (snd (execute env0 fetchDown gen0 input0 ''b1'' w0)) ''b1'' =
     Some (Research [Searching ''uuid-'' [''CraftyPanda: wreath'']]) \<and>
   events (snd (execute env0 fetchDown gen0 input0 ''b1'' w0)) =
     [UpdateBlock ''b1'' [\<lparr>op = ''replace'', path = ''/data/subSteps'',
                            patch_value = [Searching ''uuid-'' [''CraftyPanda: wreath'']]\<rparr>],
      Fetch (searchRequest ''https://rag.test'' input0),
      ConsoleError ''captionSearch: fetch error'']"
  by (simp add: execute_def getCloudflareRAGURL_def env0_def markSearching_def isResearch_def
      getBlock_def w0_def randomUUID_def pushSubStep_def updateBlock_def emit_def tryBody_def
      fetchDown_def gen0_def input0_def Let_def)

text \<open>
  C6, amended. When the endpoint is configured, the block is a research block and the
  remote call succeeds (2xx, a body that decodes, hits that map), \<open>execute\<close> appends
  exactly two sub-steps to the block: a \<open>searching\<close> entry, then a \<open>search_results\<close>
  entry holding the returned chunks. The outside calls are, in order: an \<open>updateBlock\<close>
  with a replace patch on \<open>/data/subSteps\<close> after the first append, the fetch, and an
  \<open>updateBlock\<close> with a replace patch on \<open>/data/subSteps\<close> after the second append.
\<close>

theorem successful_search_appends_two_steps:
  assumes "getCloudflareRAGURL env \<noteq> []"
    and "fetch (searchRequest (getCloudflareRAGURL env) input) =
           FetchResponse True st (BodyJSON data)"
    and "results data = Some hits"
    and "\<not> mappingThrows hits"
    and "getBlock w bid = Some (Research old)"
  shows "\<exists>chunks first second.
           fst (execute env fetch gen input bid w) =
             Inr \<lparr>out_type = ''search_results'', out_results = chunks\<rparr> \<and>
           first = Searching (gen (uuidsDrawn w)) [''CraftyPanda: '' @ query input] \<and>
           second = SearchResults (gen (Suc (uuidsDrawn w))) chunks \<and>
           getBlock (snd (execute env fetch gen input bid w)) bid =
             Some (Research (old @ [first, second])) \<and>
           events (snd (execute env fetch gen input bid w)) =
             events w @
               [UpdateBlock bid
                  [\<lparr>op = ''replace'', path = ''/data/subSteps'',
                    patch_value = old @ [first]\<rparr>],
                Fetch (searchRequest (getCloudflareRAGURL env) input),
                UpdateBlock bid
                  [\<lparr>op = ''replace'', path = ''/data/subSteps'',
                    patch_value = old @ [first, second]\<rparr>]]"
  by (simp add: execute_configured [OF assms(1)]
      tryBody_success [of fetch "getCloudflareRAGURL env" input st data hits, OF assms(2,3,4)]
      markSearching_research [OF assms(5)] Let_def emit_def getBlock_def isResearch_def
      pushSubStep_research replacePatch_def searchingStep_def)

theorem successful_search_appends_two_steps_witness:
  "getCloudflareRAGURL env0 \<noteq> [] \<and> \<not> mappingThrows [hit0] \<and>
   getBlock w0 ''b1'' = Some (Research []) \<and>
   (\<exists>chunks.
      getBlock (snd (execute env0 fetchOk gen0 input0 ''b1'' w0)) ''b1'' =
        Some (Research [Searching ''uuid-'' [''CraftyPanda: wreath''],
                        SearchResults ''uuid-i'' chunks]))"
proof -
  have r: "results \<lparr>resp_query = ''wreath'', results = Some [hit0], total = 1\<rparr> = Some [hit0]"
    by simp
  from successful_search_appends_two_steps
         [where fetch = fetchOk and env = env0 and input = input0 and gen = gen0,
          OF env0_configured fetchOk_response r hit0_ok w0_block]
  have "\<exists>chunks. getBlock (snd (execute env0 fetchOk gen0 input0 ''b1'' w0)) ''b1'' =
     Some (Research [Searching ''uuid-'' [''CraftyPanda: wreath''],
                     SearchResults ''uuid-i'' chunks])"
    by (auto simp: gen0_def w0_def input0_def)
  with env0_configured hit0_ok w0_block show ?thesis by simp
qed

text \<open>
  C10. With a research block and a configured endpoint, when the remote call fails (the
  fetch rejects, the status is not 2xx, or decoding or mapping the body throws),
  \<open>execute\<close> returns the empty result and the block holds its earlier sub-steps followed
  by the one new \<open>searching\<close> entry: no \<open>search_results\<close> entry is appended and the
  \<open>searching\<close> entry is not rolled back.
\<close>

theorem failed_call_keeps_searching_step:
  assumes "getCloudflareRAGURL env \<noteq> []"
    and "getBlock w bid = Some (Research old)"
    and "remoteFailure env fetch input"
  shows "fst (execute env fetch gen input bid w) = Inr emptyOutput \<and>
         getBlock (snd (execute env fetch gen input bid w)) bid =
           Some (Research (old @ [Searching (gen (uuidsDrawn w))
                                   [''CraftyPanda: '' @ query input]]))"
proof
  from tryBody_failure [OF assms(3) assms(1), of gen bid "markSearching gen input bid w"]
  show "fst (execute env fetch gen input bid w) = Inr emptyOutput"
    by (auto simp: execute_configured [OF assms(1)] split: prod.splits sum.splits)
next
  have "blocks (snd (execute env fetch gen input bid w)) =
        blocks (markSearching gen input bid w)"
    by (simp add: execute_blocks [OF assms(1)] tryBody_failure_blocks [OF assms(3) assms(1)])
  then show "getBlock (snd (execute env fetch gen input bid w)) bid =
           Some (Research (old @ [Searching (gen (uuidsDrawn w))
                                   [''CraftyPanda: '' @ query input]]))"
    by (simp add: getBlock_def markSearching_research [OF assms(2)] searchingStep_def)
qed

theorem failed_call_keeps_searching_step_witness:
  "getCloudflareRAGURL env0 \<noteq> [] \<and> getBlock w0 ''b1'' = Some (Research []) \<and>
   remoteFailure env0 fetchDown input0 \<and>
   fst (execute env0 fetchDown gen0 input0 ''b1'' w0) = Inr emptyOutput \<and>
   getBlock (snd (execute env0 fetchDown gen0 input0 ''b1'' w0)) ''b1'' =
     Some (Research [Searching ''uuid-'' [''CraftyPanda: wreath'']])"
  using failed_call_keeps_searching_step [OF env0_configured w0_block fetchDown_fails, of gen0]
    env0_configured w0_block fetchDown_fails
  by (simp add: gen0_def w0_def input0_def)

section \<open>Properties of the LLM provider adapter\<close>

subsection \<open>The code fence pattern\<close>

lemma backtick_not_space: "\<not> isSpace (CHR 0x60)"
  by (simp add: isSpace_def)

lemma lit_append: "lit p k (p @ r) = k r"
  by (simp add: lit_def)

lemma spacesGreedy_max:
  "k (dropWhile isSpace s) = Some r \<Longrightarrow> spacesGreedy k s = Some r"
  by (induction s) auto

lemma closing_fence:
  "spacesGreedy (lit fenceMark (atEnd cap)) s =
     (if dropWhile isSpace s = fenceMark then Some cap else None)"
proof (induction s)
  case Nil
  then show ?case by (simp add: lit_def fenceMark_def)
next
  case (Cons c cs)
  show ?case
  proof (cases "isSpace c")
    case True
    then have "\<not> prefix fenceMark (c # cs)"
      using backtick_not_space by (auto simp: fenceMark_def)
    then have "lit fenceMark (atEnd cap) (c # cs) = None" by (simp add: lit_def)
    with True Cons show ?thesis by simp
  next
    case False
    have "lit fenceMark (atEnd cap) (c # cs) = (if c # cs = fenceMark then Some cap else None)"
      by (auto simp: lit_def atEnd_def fenceMark_def prefix_def)
    with False show ?thesis by simp
  qed
qed

lemma dropWhile_spaces_fence:
  "\<forall>c\<in>set w. isSpace c \<Longrightarrow> dropWhile isSpace (w @ fenceMark) = fenceMark"
  using backtick_not_space by (induction w) (auto simp: fenceMark_def)

lemma no_close_inside:
  assumes "x \<noteq> []" "\<not> isSpace (last x)"
  shows "dropWhile isSpace (x @ w @ fenceMark) \<noteq> fenceMark"
proof -
  have "last x \<in> set x" using assms(1) by simp
  then have d: "dropWhile isSpace (x @ w @ fenceMark) = dropWhile isSpace x @ w @ fenceMark"
    using assms(2) by (simp add: dropWhile_append1)
  have "dropWhile isSpace x \<noteq> []" using \<open>last x \<in> set x\<close> assms(2) by auto
  then have "length (dropWhile isSpace x @ w @ fenceMark) > length fenceMark"
    by (cases "dropWhile isSpace x") auto
  with d show ?thesis by auto
qed

lemma anyLazy_capture:
  assumes "\<forall>c\<in>set w. isSpace c" "x = [] \<or> \<not> isSpace (last x)"
  shows "anyLazy cap (\<lambda>cap. spacesGreedy (lit fenceMark (atEnd cap))) (x @ w @ fenceMark)
           = Some (cap @ x)"
  using assms(2)
proof (induction x arbitrary: cap)
  case Nil
  have ne: "w @ fenceMark \<noteq> []" by (simp add: fenceMark_def)
  then obtain c cs where e: "w @ fenceMark = c # cs" by (cases "w @ fenceMark") auto
  have "spacesGreedy (lit fenceMark (atEnd cap)) (w @ fenceMark) = Some cap"
    by (simp add: closing_fence dropWhile_spaces_fence [OF assms(1)])
  then show ?case using e by simp
next
  case (Cons a x)
  have l: "\<not> isSpace (last (a # x))" using Cons.prems by simp
  have "spacesGreedy (lit fenceMark (atEnd cap)) ((a # x) @ w @ fenceMark) = None"
    using no_close_inside [of "a # x" w] l by (simp add: closing_fence del: append_Cons)
  moreover have "x = [] \<or> \<not> isSpace (last x)" using l by (cases x) auto
  ultimately show ?case using Cons.IH [of "cap @ [a]"] by simp
qed

lemma trimEnd_decomp:
  "\<exists>w. s = trimEnd s @ w \<and> (\<forall>c\<in>set w. isSpace c) \<and>
       (trimEnd s = [] \<or> \<not> isSpace (last (trimEnd s)))"
proof (induction s rule: rev_induct)
  case Nil
  then show ?case by (simp add: trimEnd_def)
next
  case (snoc c s)
  show ?case
  proof (cases "isSpace c")
    case True
    then have e: "trimEnd (s @ [c]) = trimEnd s" by (simp add: trimEnd_def)
    from snoc obtain w where w: "s = trimEnd s @ w" "\<forall>c\<in>set w. isSpace c"
      "trimEnd s = [] \<or> \<not> isSpace (last (trimEnd s))" by blast
    have "s @ [c] = trimEnd (s @ [c]) @ (w @ [c])" using w(1) e by simp
    moreover have "\<forall>d\<in>set (w @ [c]). isSpace d" using w(2) True by simp
    ultimately show ?thesis using w(3) e by metis
  next
    case False
    then have "trimEnd (s @ [c]) = s @ [c]" by (simp add: trimEnd_def)
    with False show ?thesis by simp
  qed
qed

lemma after_opening:
  "\<exists>w. dropWhile isSpace (CHR 0x0A # t @ CHR 0x0A # fenceMark) = trim t @ w @ fenceMark \<and>
       (\<forall>c\<in>set w. isSpace c) \<and> (trim t = [] \<or> \<not> isSpace (last (trim t)))"
proof (cases "dropWhile isSpace t = []")
  case True
  then have a: "\<forall>c\<in>set t. isSpace c" by simp
  then have "\<forall>c\<in>set (CHR 0x0A # t @ [CHR 0x0A]). isSpace c" by (simp add: isSpace_def)
  from dropWhile_spaces_fence [OF this]
  have "dropWhile isSpace (CHR 0x0A # t @ CHR 0x0A # fenceMark) = fenceMark" by simp
  moreover have "trim t = []" unfolding trim_def trimEnd_def True by simp
  ultimately show ?thesis by simp
next
  case False
  then obtain c where c: "c \<in> set t" "\<not> isSpace c" by (auto simp: dropWhile_eq_Nil_conv)
  have sp: "isSpace (CHR 0x0A)" by (simp add: isSpace_def)
  have d: "dropWhile isSpace (CHR 0x0A # t @ CHR 0x0A # fenceMark) =
           dropWhile isSpace t @ CHR 0x0A # fenceMark"
    using c sp by (simp add: dropWhile_append1)
  obtain w where w: "dropWhile isSpace t = trim t @ w" "\<forall>c\<in>set w. isSpace c"
    "trim t = [] \<or> \<not> isSpace (last (trim t))"
    using trimEnd_decomp [of "dropWhile isSpace t"] by (auto simp: trim_def)
  have "dropWhile isSpace (CHR 0x0A # t @ CHR 0x0A # fenceMark) =
        trim t @ (w @ [CHR 0x0A]) @ fenceMark"
    using d w(1) by simp
  moreover have "\<forall>c\<in>set (w @ [CHR 0x0A]). isSpace c" using w(2) sp by simp
  ultimately show ?thesis using w(3) by blast
qed

lemma matchFence_fenced: "matchFence (fenced t) = Some (trim t)"
proof -
  let ?K = "\<lambda>cap. spacesGreedy (lit fenceMark (atEnd cap))"
  obtain w where w: "dropWhile isSpace (CHR 0x0A # t @ CHR 0x0A # fenceMark) = trim t @ w @ fenceMark"
    "\<forall>c\<in>set w. isSpace c" "trim t = [] \<or> \<not> isSpace (last (trim t))"
    using after_opening by blast
  have "anyLazy [] ?K (dropWhile isSpace (CHR 0x0A # t @ CHR 0x0A # fenceMark)) = Some (trim t)"
    using anyLazy_capture [OF w(2,3), of "[]"] w(1) by simp
  then have s: "spacesGreedy (anyLazy [] ?K) (CHR 0x0A # t @ CHR 0x0A # fenceMark) = Some (trim t)"
    by (rule spacesGreedy_max)
  have "optLit ''json'' (spacesGreedy (anyLazy [] ?K)) (''json'' @ CHR 0x0A # t @ CHR 0x0A # fenceMark)
          = Some (trim t)"
    unfolding optLit_def lit_append using s by simp
  then show ?thesis
    unfolding matchFence_def fenced_def by (simp add: lit_append)
qed

lemma trim_fenced: "trim (fenced t) = fenced t"
proof -
  have "dropWhile isSpace (fenced t) = fenced t"
    using backtick_not_space by (simp add: fenced_def fenceMark_def)
  moreover have "trimEnd (fenced t) = fenced t"
    using backtick_not_space by (simp add: trimEnd_def fenced_def fenceMark_def)
  ultimately show ?thesis by (simp add: trim_def)
qed

lemma strip_unfenced: "\<not> prefix fenceMark s \<Longrightarrow> stripMarkdownCodeFence s = s"
  by (simp add: stripMarkdownCodeFence_def matchFence_def lit_def)

lemma strip_fenced:
  "\<not> prefix fenceMark (trim t) \<Longrightarrow>
   stripMarkdownCodeFence (trim (fenced t)) = stripMarkdownCodeFence (trim t)"
  by (simp add: trim_fenced strip_unfenced) (simp add: stripMarkdownCodeFence_def matchFence_fenced)

subsection \<open>Schema violations\<close>

text \<open>
  C3. When the response has a choice whose content repairs and parses to a value that the
  schema rejects: in the enforced mode (model and base URL outside the groq/openrouter
  heuristic) \<open>generateObject\<close> raises an error; in the degraded json-object mode it
  logs the violation and returns the parsed value as it is.
\<close>

theorem schema_violation_by_mode:
  assumes "completion_choices response = c # cs"
    and "message_content (message c) = Some rawContent"
    and "repairJson (stripMarkdownCodeFence (trim rawContent)) = Inr repaired"
    and "jsonParse repaired = Inr parsed"
    and "safeParse parsed = Inl issues"
  shows "(\<not> needsJsonObjectMode cfg \<longrightarrow>
            generateObject cfg repairJson jsonParse safeParse response =
              (Inl (Error (''Error parsing response from OpenAI: '' @
                           errorText (ZodError issues))), [])) \<and>
         (needsJsonObjectMode cfg \<longrightarrow>
            generateObject cfg repairJson jsonParse safeParse response =
              (Inr parsed, [''Schema validation failed, attempting partial parse: '' @ issues]))"
  using assms by (simp add: generateObject_def parseContent_def)

lemma trim_braces: \<open>trim ''{}'' = ''{}''\<close>
  by (simp add: trim_def trimEnd_def isSpace_def)

lemma strip_braces: \<open>stripMarkdownCodeFence ''{}'' = ''{}''\<close>
  by (simp add: strip_unfenced fenceMark_def)

lemma enforced_mode: "\<not> needsJsonObjectMode cfgEnforced"
  by (simp add: needsJsonObjectMode_def cfgEnforced_def startsWith_def)

lemma degraded_mode: "needsJsonObjectMode cfgDegraded"
  by (simp add: needsJsonObjectMode_def cfgDegraded_def startsWith_def)

theorem schema_violation_by_mode_witness:
  \<open>\<not> needsJsonObjectMode cfgEnforced \<and> needsJsonObjectMode cfgDegraded \<and>
   requiresX (JObject []) = Inl ''x: Required'' \<and>
   generateObject cfgEnforced repairNothing sampleParse requiresX (responseWith ''{}'') =
     (Inl (Error ''Error parsing response from OpenAI: x: Required''), []) \<and>
   generateObject cfgDegraded repairNothing sampleParse requiresX (responseWith ''{}'') =
     (Inr (JObject []), [''Schema validation failed, attempting partial parse: x: Required''])\<close>
proof -
  have a: \<open>completion_choices (responseWith ''{}'') =
             \<lparr>message = \<lparr>message_content = Some ''{}''\<rparr>\<rparr> # []\<close>
    by (simp add: responseWith_def)
  have b: \<open>message_content (message \<lparr>message = \<lparr>message_content = Some ''{}''\<rparr>\<rparr>) = Some ''{}''\<close>
    by simp
  have c: \<open>repairNothing (stripMarkdownCodeFence (trim ''{}'')) = Inr ''{}''\<close>
    by (simp add: repairNothing_def trim_braces strip_braces)
  have d: \<open>sampleParse ''{}'' = Inr (JObject [])\<close>
    by (simp add: sampleParse_def)
  have e: \<open>requiresX (JObject []) = Inl ''x: Required''\<close>
    by (simp add: requiresX_def)
  from schema_violation_by_mode
         [where repairJson = repairNothing and jsonParse = sampleParse
            and safeParse = requiresX and cfg = cfgEnforced, OF a b c d e]
       schema_violation_by_mode
         [where repairJson = repairNothing and jsonParse = sampleParse
            and safeParse = requiresX and cfg = cfgDegraded, OF a b c d e]
       enforced_mode degraded_mode e
  show ?thesis by simp
qed

subsection \<open>Code-fenced responses\<close>

text \<open>
  C8. For every JSON text \<open>t\<close>, \<open>generateObject\<close> on a response whose content is \<open>t\<close>
  wrapped in a markdown code fence (the fence line with \<open>json\<close>, a line feed, \<open>t\<close>, a
  line feed, the closing fence) gives the same result, value or error, and the same
  warnings as on a response whose content is \<open>t\<close> itself. A JSON text begins, after
  white space, with one of \<open>{ [ " -\<close>, a digit, or \<open>t f n\<close>, so never with the fence
  mark; that is all the proof needs of \<open>t\<close>.
\<close>

theorem fenced_json_parsed_identically:
  assumes "\<not> prefix fenceMark (trim t)"
  shows "generateObject cfg repairJson jsonParse safeParse (responseWith (fenced t)) =
         generateObject cfg repairJson jsonParse safeParse (responseWith t)"
  by (simp add: generateObject_def parseContent_def responseWith_def strip_fenced [OF assms])

lemma trim_x1: \<open>trim ''{"x":1}'' = ''{"x":1}''\<close>
  by (simp add: trim_def trimEnd_def isSpace_def)

theorem fenced_json_parsed_identically_witness:
  \<open>\<not> prefix fenceMark (trim ''{"x":1}'') \<and>
   generateObject cfgEnforced repairNothing sampleParse requiresX (responseWith (fenced ''{"x":1}'')) =
     (Inr (JObject [(''x'', JNumber 1)]), [])\<close>
proof -
  have p: \<open>\<not> prefix fenceMark (trim ''{"x":1}'')\<close>
    by (simp add: trim_x1 fenceMark_def)
  have \<open>generateObject cfgEnforced repairNothing sampleParse requiresX (responseWith ''{"x":1}'') =
     (Inr (JObject [(''x'', JNumber 1)]), [])\<close>
    using enforced_mode
    by (simp add: generateObject_def parseContent_def responseWith_def trim_x1 strip_unfenced
        fenceMark_def repairNothing_def sampleParse_def requiresX_def)
  with fenced_json_parsed_identically [OF p, of cfgEnforced repairNothing sampleParse requiresX] p
  show ?thesis by simp
qed

subsection \<open>Streaming object generation\<close>

lemma streamObjectFrom_append:
  "streamObjectFrom parse r (pre @ rest) =
     (case streamObjectFrom parse r pre of
        (ys, Some e) \<Rightarrow> (ys, Some e)
      | (ys, None) \<Rightarrow>
          (case streamObjectFrom parse (r @ accumulatedText pre) rest of
             (zs, err) \<Rightarrow> (ys @ zs, err)))"
proof (induction parse r pre rule: streamObjectFrom.induct)
  case (1 parse recievedObj)
  then show ?case by simp
next
  case (2 parse recievedObj d es)
  then show ?case by (auto split: prod.splits option.splits sum.splits)
next
  case (3 parse recievedObj t es)
  then show ?case by (auto split: prod.splits option.splits sum.splits)
next
  case (4 parse recievedObj ty es)
  then show ?case by (auto split: prod.splits option.splits)
qed

text \<open>
  C7. In \<open>streamObject\<close>, as long as no terminal parse has thrown: a non-empty text
  increment yields the tolerant parse of the text accumulated so far (the empty object
  when the parse throws) and the stream goes on with the events that follow; a done
  event whose non-empty text does not parse makes the generator throw, after the values
  yielded before it and with nothing yielded after.
\<close>

theorem streamObject_increment_and_terminal:
  assumes "snd (streamObject parse pre) = None"
  shows "(d \<noteq> [] \<longrightarrow>
            streamObject parse (pre @ OutputTextDelta d # post) =
              (fst (streamObject parse pre) @
                 (case parse (accumulatedText pre @ d) of Inr v \<Rightarrow> v | Inl e \<Rightarrow> JObject []) #
                 fst (streamObjectFrom parse (accumulatedText pre @ d) post),
               snd (streamObjectFrom parse (accumulatedText pre @ d) post))) \<and>
         (t \<noteq> [] \<and> parse t = Inl e \<longrightarrow>
            streamObject parse (pre @ OutputTextDone t # post) =
              (fst (streamObject parse pre),
               Some (Error (''Error parsing response from OpenAI: '' @ errorText e))))"
  using assms
  by (auto simp: streamObject_def streamObjectFrom_append split: prod.splits option.splits)

theorem streamObject_increment_and_terminal_witness:
  \<open>snd (streamObject sampleParse [OutputTextDelta ''{"a":1'']) = None \<and>
   snd (streamObject sampleParse []) = None \<and>
   sampleParse ''oops'' = Inl (SyntaxError ''Unexpected token'') \<and>
   streamObject sampleParse
     [OutputTextDelta ''{"a":1'', OutputTextDelta '',"b":'', OutputTextDelta ''2}''] =
     ([JObject [(''a'', JNumber 1)], JObject [(''a'', JNumber 1)],
       JObject [(''a'', JNumber 1), (''b'', JNumber 2)]], None) \<and>
   streamObject sampleParse [OutputTextDelta ''oops'', OutputTextDone ''{"x":1}''] =
     ([JObject [], JObject [(''x'', JNumber 1)]], None) \<and>
   streamObject sampleParse
     [OutputTextDelta ''{"a":1'', OutputTextDone ''oops'', OutputTextDelta ''late''] =
     ([JObject [(''a'', JNumber 1)]],
      Some (Error ''Error parsing response from OpenAI: SyntaxError: Unexpected token''))\<close>
proof -
  have n: \<open>snd (streamObject sampleParse [OutputTextDelta ''{"a":1'']) = None\<close>
    by (simp add: streamObject_def sampleParse_def)
  have m: \<open>snd (streamObject sampleParse []) = None\<close>
    by (simp add: streamObject_def)
  have f: \<open>sampleParse ''oops'' = Inl (SyntaxError ''Unexpected token'')\<close>
    by (simp add: sampleParse_def)
  from streamObject_increment_and_terminal [OF n,
      of \<open>'',"b":''\<close> \<open>[OutputTextDelta ''2}'']\<close> \<open>''oops''\<close> \<open>SyntaxError ''Unexpected token''\<close>]
    streamObject_increment_and_terminal [OF m,
      of \<open>''oops''\<close> \<open>[OutputTextDone ''{"x":1}'']\<close> \<open>''oops''\<close> \<open>SyntaxError ''Unexpected token''\<close>]
    streamObject_increment_and_terminal [OF n,
      of \<open>'',"b":''\<close> \<open>[OutputTextDelta ''late'']\<close> \<open>''oops''\<close> \<open>SyntaxError ''Unexpected token''\<close>] f
  have \<open>streamObject sampleParse
     ([OutputTextDelta ''{"a":1''] @ OutputTextDelta '',"b":'' # [OutputTextDelta ''2}'']) =
     ([JObject [(''a'', JNumber 1)], JObject [(''a'', JNumber 1)],
       JObject [(''a'', JNumber 1), (''b'', JNumber 2)]], None) \<and>
     streamObject sampleParse ([] @ OutputTextDelta ''oops'' # [OutputTextDone ''{"x":1}'']) =
     ([JObject [], JObject [(''x'', JNumber 1)]], None) \<and>
     streamObject sampleParse
     ([OutputTextDelta ''{"a":1''] @ OutputTextDone ''oops'' # [OutputTextDelta ''late'']) =
     ([JObject [(''a'', JNumber 1)]],
      Some (Error ''Error parsing response from OpenAI: SyntaxError: Unexpected token''))\<close>
    by (simp add: streamObject_def sampleParse_def)
  then show ?thesis using n m f by simp
qed

subsection \<open>Termination of the streams\<close>

lemma streamTextFrom_flags:
  "map done_flag (streamTextFrom parse rcv chunks) =
     map (\<lambda>ch. finish_reason (hd (chunk_choices ch)) \<noteq> None)
       (filter (\<lambda>ch. chunk_choices ch \<noteq> []) chunks)"
  by (induction chunks arbitrary: rcv)
     (auto simp: streamStep_def split: list.splits prod.splits option.splits)

lemma streamObjectFrom_count:
  "length (fst (streamObjectFrom parse r es)) =
     length (filter yielding (takeWhile (\<lambda>ev. \<not> terminalFailure parse ev) es))"
  by (induction parse r es rule: streamObjectFrom.induct)
     (auto split: prod.splits sum.splits)

text \<open>
  C2, as the code has it. The statement "no update is yielded after the first chunk whose
  finish reason is non-null" fails: the loop has no exit of its own, so a chunk that
  follows a finished one still yields an update.
\<close>

theorem update_after_finish_counterexample:
  "map done_flag (streamText sampleParse
       [textChunk ''Hi'' (Some ''stop''), textChunk ''!'' None]) = [True, False] \<and>
   map contentChunk (streamText sampleParse
       [textChunk ''Hi'' (Some ''stop''), textChunk ''!'' None]) = [''Hi'', ''!'']"
  by (simp add: streamText_def streamStep_def textChunk_def orElse_def)

text \<open>
  C2, amended. \<open>streamText\<close> yields exactly one update for each upstream chunk that has
  a choice, in order, until the upstream stream ends; the done flag of an update is set
  exactly when its chunk's finish reason is non-null, and nothing local decides it.
  \<open>streamObject\<close> yields one value for each delta or done event with non-empty text,
  until the upstream stream ends or a terminal parse throws. Neither stops at a finish
  marker by itself.
\<close>

theorem streams_follow_upstream:
  "map done_flag (streamText parse chunks) =
     map (\<lambda>ch. finish_reason (hd (chunk_choices ch)) \<noteq> None)
       (filter (\<lambda>ch. chunk_choices ch \<noteq> []) chunks) \<and>
   length (fst (streamObject parse es)) =
     length (filter yielding (takeWhile (\<lambda>ev. \<not> terminalFailure parse ev) es))"
  by (simp add: streamText_def streamObject_def streamTextFrom_flags streamObjectFrom_count)

theorem streams_follow_upstream_witness:
  "map done_flag (streamText sampleParse
       [textChunk ''Hi'' None, \<lparr>chunk_choices = []\<rparr>, textChunk [] (Some ''stop'')]) =
     [False, True] \<and>
   length (fst (streamObject sampleParse
       [OutputTextDelta ''{}'', OtherEvent ''response.created'', OutputTextDone ''{}''])) = 2"
  using streams_follow_upstream
          [of sampleParse
              "[textChunk ''Hi'' None, \<lparr>chunk_choices = []\<rparr>, textChunk [] (Some ''stop'')]"
              "[OutputTextDelta ''{}'', OtherEvent ''response.created'', OutputTextDone ''{}'']"]
  by (simp add: textChunk_def sampleParse_def)

subsection \<open>Accumulation of tool-call arguments\<close>

lemma showNat_1: "showNat (Suc 0) = ''1''"
  by (subst showNat.simps) simp

lemma toolId_1: "toolId (Suc 0) = ''tool_1''"
  by (simp add: toolId_def showNat_1)

lemma nthOpt_append: "nthOpt (xs @ [c]) = (nthOpt xs)(length xs \<mapsto> c)"
  by (rule ext) (simp add: nthOpt_def nth_append)

lemma nthOpt_update: "i < length xs \<Longrightarrow> nthOpt (xs[i := c]) = (nthOpt xs)(i \<mapsto> c)"
  by (rule ext) (simp add: nthOpt_def nth_list_update)

lemma nthOpt_Nil: "nthOpt [] = Map.empty"
  by (rule ext) (simp add: nthOpt_def)

lemma nthOpt_update_same: "i < length xs \<Longrightarrow> nthOpt (xs[i := c]) i = Some c"
  by (simp add: nthOpt_def)

lemma nthOpt_append_same: "nthOpt (xs @ [c]) (length xs) = Some c"
  by (simp add: nthOpt_def)

lemma processToolCall_keyed:
  assumes "tc_index tc \<le> length rcv"
  shows "processToolCallKeyed parse (nthOpt rcv) tc =
           (fst (processToolCall parse rcv tc), nthOpt (snd (processToolCall parse rcv tc)))"
proof (cases "tc_index tc < length rcv")
  case True
  then have l: "nthOpt rcv (tc_index tc) = Some (rcv ! tc_index tc)"
    by (simp add: nthOpt_def)
  show ?thesis
    by (simp add: processToolCallKeyed_def processToolCall_def Let_def l nthOpt_update [OF True]
        nthOpt_update_same [OF True] parseCall_def parseCallKeyed_def fallbackCall_def
        split: sum.splits)
next
  case False
  with assms have e: "tc_index tc = length rcv" by simp
  have l: "nthOpt rcv (length rcv) = None"
    by (simp add: nthOpt_def)
  show ?thesis
    by (simp add: processToolCallKeyed_def processToolCall_def Let_def l e nthOpt_append
        nthOpt_append_same parseCall_def parseCallKeyed_def fallbackCall_def
        split: sum.splits)
qed

lemma processToolCall_length:
  "length (snd (processToolCall parse rcv tc)) =
     (if tc_index tc < length rcv then length rcv else Suc (length rcv))"
  by (simp add: processToolCall_def Let_def nthOpt_def)

lemma processToolCalls_keyed:
  "contiguousFrom (length rcv) (map tc_index tcs @ rest) \<Longrightarrow>
   processToolCallsKeyed parse (nthOpt rcv) tcs =
     (fst (processToolCalls parse rcv tcs), nthOpt (snd (processToolCalls parse rcv tcs))) \<and>
   contiguousFrom (length (snd (processToolCalls parse rcv tcs))) rest"
proof (induction tcs arbitrary: rcv)
  case Nil
  then show ?case by simp
next
  case (Cons tc tcs)
  from Cons.prems have le: "tc_index tc \<le> length rcv"
    by (auto split: if_splits)
  let ?rcv' = "snd (processToolCall parse rcv tc)"
  from Cons.prems le have "contiguousFrom (length ?rcv') (map tc_index tcs @ rest)"
    by (auto simp: processToolCall_length split: if_splits)
  from Cons.IH [OF this] processToolCall_keyed [OF le, of parse]
  show ?case by (simp add: split_beta)
qed

lemma streamStep_keyed:
  assumes "contiguousFrom (length rcv) (chunkIndices chunk @ rest)"
  shows "streamStepKeyed parse (nthOpt rcv) chunk =
           (fst (streamStep parse rcv chunk), nthOpt (snd (streamStep parse rcv chunk))) \<and>
         contiguousFrom (length (snd (streamStep parse rcv chunk))) rest"
proof (cases "chunk_choices chunk")
  case Nil
  with assms show ?thesis by (simp add: streamStepKeyed_def streamStep_def chunkIndices_def)
next
  case (Cons c cs)
  show ?thesis
  proof (cases "tool_calls (delta c)")
    case None
    with Cons assms show ?thesis
      by (simp add: streamStepKeyed_def streamStep_def chunkIndices_def)
  next
    case (Some tcs)
    with Cons assms have "contiguousFrom (length rcv) (map tc_index tcs @ rest)"
      by (simp add: chunkIndices_def)
    from processToolCalls_keyed [OF this, of parse] Cons Some show ?thesis
      by (simp add: streamStepKeyed_def streamStep_def split_beta)
  qed
qed

lemma streamTextFrom_keyed:
  "contiguousFrom (length rcv) (concat (map chunkIndices chunks)) \<Longrightarrow>
   streamTextFrom parse rcv chunks = streamTextKeyedFrom parse (nthOpt rcv) chunks"
proof (induction chunks arbitrary: rcv)
  case Nil
  then show ?case by simp
next
  case (Cons chunk chunks)
  from Cons.prems
  have "contiguousFrom (length rcv) (chunkIndices chunk @ concat (map chunkIndices chunks))"
    by simp
  from streamStep_keyed [OF this, of parse]
  have k: "streamStepKeyed parse (nthOpt rcv) chunk =
           (fst (streamStep parse rcv chunk), nthOpt (snd (streamStep parse rcv chunk)))"
    and c: "contiguousFrom (length (snd (streamStep parse rcv chunk)))
              (concat (map chunkIndices chunks))"
    by simp_all
  from Cons.IH [OF c] k show ?case
    by (cases "streamStep parse rcv chunk") (auto split: option.splits)
qed

text \<open>
  C9, as the code has it. "Correct exactly when the indices first appear in increasing
  contiguous order starting at 0" fails in the "only when" direction: a stream with a
  single tool-call delta of index 1 is not in that order, yet \<open>streamText\<close> yields
  what index-keyed accumulation yields.
\<close>

theorem lone_delta_counterexample:
  \<open>\<not> indicesInOrder [toolDelta 1 None None ''{}''] \<and>
   streamText sampleParse [toolDelta 1 None None ''{}''] =
     streamTextKeyed sampleParse [toolDelta 1 None None ''{}'']\<close>
  by (simp add: indicesInOrder_def chunkIndices_def toolDelta_def streamText_def
      streamTextKeyed_def streamStep_def streamStepKeyed_def processToolCall_def
      processToolCallKeyed_def nthOpt_def newCall_def fragmentOf_def orElse_def
      parseCall_def parseCallKeyed_def sampleParse_def Let_def)

text \<open>
  C9, amended. When a tool-call delta's index has no accumulator, the new accumulator is
  appended at the end of the list, whatever the index. Consequently \<open>streamText\<close>
  agrees with index-keyed accumulation whenever the stream's tool-call indices first
  appear in increasing contiguous order starting at 0 (the converse does not hold). And
  for the stream of two deltas of index 1, the second delta starts a fresh accumulator
  instead of being concatenated onto the first.
\<close>

theorem push_at_end_and_in_order_agreement:
  \<open>(nthOpt rcv (tc_index tc) = None \<longrightarrow>
      snd (processToolCall parse rcv tc) = rcv @ [newCall tc]) \<and>
   (indicesInOrder chunks \<longrightarrow> streamText parse chunks = streamTextKeyed parse chunks) \<and>
   accumulatorsAfter parse []
     [toolDelta 1 (Some ''call_1'') (Some ''f'') ''{"a":1'', toolDelta 1 None None '',"b":2}''] =
     [\<lparr>rc_name = ''f'', rc_id = ''call_1'', rc_arguments = ''{"a":1''\<rparr>,
      \<lparr>rc_name = [], rc_id = ''tool_1'', rc_arguments = '',"b":2}''\<rparr>]\<close>
proof (intro conjI impI)
  assume "nthOpt rcv (tc_index tc) = None"
  then show "snd (processToolCall parse rcv tc) = rcv @ [newCall tc]"
    by (simp add: processToolCall_def Let_def)
next
  assume "indicesInOrder chunks"
  then have "contiguousFrom (length ([] :: ReceivedCall list)) (concat (map chunkIndices chunks))"
    by (simp add: indicesInOrder_def)
  from streamTextFrom_keyed [OF this, of parse]
  show "streamText parse chunks = streamTextKeyed parse chunks"
    by (simp add: streamText_def streamTextKeyed_def nthOpt_Nil)
next
  show \<open>accumulatorsAfter parse []
     [toolDelta 1 (Some ''call_1'') (Some ''f'') ''{"a":1'', toolDelta 1 None None '',"b":2}''] =
     [\<lparr>rc_name = ''f'', rc_id = ''call_1'', rc_arguments = ''{"a":1''\<rparr>,
      \<lparr>rc_name = [], rc_id = ''tool_1'', rc_arguments = '',"b":2}''\<rparr>]\<close>
    by (simp add: toolDelta_def streamStep_def processToolCall_def nthOpt_def newCall_def
        fragmentOf_def orElse_def toolId_1 Let_def)
qed

theorem push_at_end_and_in_order_agreement_witness:
  \<open>nthOpt ([] :: ReceivedCall list)
     (tc_index \<lparr>tc_index = 3, tc_id = None, tc_function = None\<rparr>) = None \<and>
   snd (processToolCall sampleParse [] \<lparr>tc_index = 3, tc_id = None, tc_function = None\<rparr>) =
     [newCall \<lparr>tc_index = 3, tc_id = None, tc_function = None\<rparr>] \<and>
   indicesInOrder
     [toolDelta 0 (Some ''call_1'') (Some ''f'') ''{"a":1'', toolDelta 0 None None '',"b":2}''] \<and>
   streamText sampleParse
     [toolDelta 0 (Some ''call_1'') (Some ''f'') ''{"a":1'', toolDelta 0 None None '',"b":2}''] =
   streamTextKeyed sampleParse
     [toolDelta 0 (Some ''call_1'') (Some ''f'') ''{"a":1'', toolDelta 0 None None '',"b":2}'']\<close>
proof -
  have a: \<open>nthOpt ([] :: ReceivedCall list)
             (tc_index \<lparr>tc_index = 3, tc_id = None, tc_function = None\<rparr>) = None\<close>
    by (simp add: nthOpt_def)
  have b: \<open>indicesInOrder
     [toolDelta 0 (Some ''call_1'') (Some ''f'') ''{"a":1'', toolDelta 0 None None '',"b":2}'']\<close>
    by (simp add: indicesInOrder_def chunkIndices_def toolDelta_def)
  from push_at_end_and_in_order_agreement
         [of \<open>[]\<close> \<open>\<lparr>tc_index = 3, tc_id = None, tc_function = None\<rparr>\<close> sampleParse
            \<open>[toolDelta 0 (Some ''call_1'') (Some ''f'') ''{"a":1'',
              toolDelta 0 None None '',"b":2}'']\<close>] a b
  show ?thesis by simp
qed

text \<open>
  C4, at the failing input. Two chunks sharing index 1 carry the two fragments. The first
  delta is pushed at position 0, so the second finds nothing at position 1 and starts
  a new accumulator: the parser is applied to the second fragment alone, and the update
  after the second chunk carries that result (the empty object when it does not parse)
  under the name \<open>''\<close> and the id \<open>tool_1\<close>, not the object parsed from the
  concatenation.
\<close>

theorem second_fragment_not_concatenated:
  \<open>map toolCallChunk (streamText parse
      [toolDelta 1 (Some ''call_1'') (Some ''f'') ''{"a":1'', toolDelta 1 None None '',"b":2}''])
     ! 1 =
   [\<lparr>name = [], call_id = ''tool_1'',
     arguments = (case parse '',"b":2}'' of Inr v \<Rightarrow> v | Inl e \<Rightarrow> JObject [])\<rparr>]\<close>
  by (simp add: streamText_def toolDelta_def streamStep_def processToolCall_def nthOpt_def
      newCall_def fragmentOf_def orElse_def toolId_1 Let_def parseCall_def fallbackCall_def
      split: sum.splits)

text \<open>
  With index 0 in place of 1 the second delta finds the accumulator of the first, and
  the parser is applied to the concatenation of the two fragments.
\<close>

lemma index0_fragments_concatenated:
  \<open>map toolCallChunk (streamText parse
      [toolDelta 0 (Some ''call_1'') (Some ''f'') ''{"a":1'', toolDelta 0 None None '',"b":2}''])
     ! 1 =
   [\<lparr>name = ''f'', call_id = ''call_1'',
     arguments = (case parse ''{"a":1,"b":2}'' of Inr v \<Rightarrow> v | Inl e \<Rightarrow> JObject [])\<rparr>]\<close>
  by (simp add: streamText_def toolDelta_def streamStep_def processToolCall_def nthOpt_def
      newCall_def fragmentOf_def orElse_def Let_def parseCall_def fallbackCall_def
      split: sum.splits)

text \<open>
  What holds of the claim at every index: the text handed to the parser is the text of
  the accumulator the delta was stored in (the fragment alone for a new accumulator, the
  concatenation for one found at the index), a text that does not parse gives the empty
  object for that call, and the stream goes on: the number of updates does not depend
  on the parser.
\<close>

lemma parsed_arguments_new:
  "nthOpt rcv (tc_index tc) = None \<Longrightarrow>
   arguments (fst (processToolCall parse rcv tc)) =
     (case parse (orElse (Some (fragmentOf tc)) ''{}'') of Inr v \<Rightarrow> v | Inl e \<Rightarrow> JObject [])"
  by (simp add: processToolCall_def Let_def parseCall_def fallbackCall_def newCall_def
      split: option.splits sum.splits)

lemma parsed_arguments_existing:
  "nthOpt rcv (tc_index tc) = Some existingCall \<Longrightarrow>
   arguments (fst (processToolCall parse rcv tc)) =
     (case parse (orElse (Some (rc_arguments existingCall @ fragmentOf tc)) ''{}'') of
        Inr v \<Rightarrow> v | Inl e \<Rightarrow> JObject [])"
  by (simp add: processToolCall_def Let_def parseCall_def fallbackCall_def
      split: option.splits sum.splits)

lemma streamText_length:
  "length (streamTextFrom parse rcv chunks) =
     length (filter (\<lambda>ch. chunk_choices ch \<noteq> []) chunks)"
  by (induction chunks arbitrary: rcv)
     (auto simp: streamStep_def split: list.splits prod.splits option.splits)

end
